theory Spec2Isabelle
  imports Main
begin

section \<open>The two implementations\<close>

text \<open>
  \<^verbatim>\<open>src/index.ts\<close> holds two near-duplicate implementations of the transport, one
  after the other: the first in lines 1-362, the second in lines 363-678. Both declare
  \<^verbatim>\<open>PapertrailTransport\<close> and \<^verbatim>\<open>PapertrailConnection\<close> with the same methods. Every
  method is embedded once, with the implementation as its first argument; where the two
  texts differ the equation for \<open>First\<close> follows lines 1-362 and the one for
  \<open>Second\<close> lines 363-678.
\<close>

datatype impl = First | Second

section \<open>Data model\<close>

text \<open>
  \<^verbatim>\<open>PapertrailTransportOptions\<close>, the fields the embedded methods read. The connection
  reads the numeric fields with a non-null assertion (\<^verbatim>\<open>this.options.connectionDelay!\<close>),
  so they are taken as present: a record of this type is an options object in which
  every field has been given. JavaScript numbers are modelled as integers
  (milliseconds and counts). \<^verbatim>\<open>levels\<close> is a plain object used as a dictionary from
  level names to severities: its own properties are an association list read with
  \<open>map_of\<close>, one entry for each key. The option
  \<^verbatim>\<open>connectionDelay\<close> is named \<open>connectionDelay_opt\<close>, the connection has a field of
  the same name.
\<close>

record options =
  host :: string
  port :: int
  disableTls :: bool
  hostname :: string
  program :: string
  levels :: "(string \<times> int) list"
  logFormat :: "string \<Rightarrow> string \<Rightarrow> string"
  flushOnClose :: bool
  attemptsBeforeDecay :: int
  maximumAttempts :: int
  connectionDelay_opt :: int
  maxDelayBetweenReconnection :: int

text \<open>
  A completion callback is opaque to the connection: it is only stored and handed on.
  An entry of \<^verbatim>\<open>deferredQueue\<close> is the object \<^verbatim>\<open>{ buffer: text, callback }\<close>.
\<close>

type_synonym callback = nat

record deferred =
  buffer :: string
  callback :: callback

text \<open>
  A \<^verbatim>\<open>net.Socket\<close> object, as far as the connection looks at it. \<open>writable\<close> is the
  property the code tests. Whether \<^verbatim>\<open>write\<close> or \<^verbatim>\<open>destroy\<close> throws synchronously is
  decided by Node, not by this program: \<open>write_throws\<close> and \<open>destroy_throws\<close> say
  what the object will do. \<open>empty_listeners\<close> counts the handlers that \<^verbatim>\<open>close\<close> has
  registered on this object with \<^verbatim>\<open>stream.on('empty', ...)\<close>; they are the only
  listeners of that event.
\<close>

record sock =
  writable :: bool
  write_throws :: bool
  destroy_throws :: bool
  empty_listeners :: nat

datatype error =
    MissingParameters
  | ConnectionError
  | MaximumRetriesExceeded
  | WriteError
  | DestroyError
  | TypeError

text \<open>
  The callbacks handed to \<^verbatim>\<open>setTimeout\<close>: the arrow function of \<^verbatim>\<open>onErrored\<close>, and
  the closure \<^verbatim>\<open>_close\<close> of \<^verbatim>\<open>close\<close> together with the value of its attempt counter
  (the counter changes only just before the closure is scheduled).
\<close>

datatype timer = Reconnect | CloseRetry nat

text \<open>
  What the connection does to the outside, in the order it does it: the calls into
  Node that returned normally, the events it emits and the timers it sets.
\<close>

datatype effect =
    Write string callback
  | DestroySocket
  | DestroyStream
  | CreateConnection
  | EmitConnect
  | EmitEmpty
  | EmitError error
  | ConsoleError error
  | SetTimeout timer int

record conn =
  options :: options
  connectionDelay :: int
  currentRetries :: int
  totalRetries :: int
  loggingEnabled :: bool
  shutdown :: bool
  erroring :: bool
  deferredQueue :: "deferred list"
  stream :: "sock option"
  socket :: "sock option"
  errorListeners :: nat
  trace :: "effect list"

text \<open>
  A method either returns or throws; in both cases the fields it has assigned so far
  keep their values, so a thrown exception carries the state it leaves behind.
\<close>

datatype outcome = Returned conn | Threw error conn

fun state_of :: "outcome \<Rightarrow> conn" where
  "state_of (Returned c) = c"
| "state_of (Threw e c) = c"

fun threw :: "outcome \<Rightarrow> bool" where
  "threw (Returned c) = False"
| "threw (Threw e c) = True"

definition emit :: "effect \<Rightarrow> conn \<Rightarrow> conn" where
  "emit e c = c\<lparr>trace := trace c @ [e]\<rparr>"

section \<open>PapertrailConnection\<close>

text \<open>\<^verbatim>\<open>emitSilentError\<close> (lines 317-323 and 631-637).\<close>

definition emitSilentError :: "conn \<Rightarrow> error \<Rightarrow> conn" where
  "emitSilentError c err =
     (if errorListeners c > 0 then emit (EmitError err) c else emit (ConsoleError err) c)"

text \<open>
  \<^verbatim>\<open>closeStream\<close>, the inner function of the first \<^verbatim>\<open>close\<close> (lines 328-333). It
  dereferences \<^verbatim>\<open>this.stream!\<close>: with no stream the property access throws a
  TypeError. The two \<^verbatim>\<open>removeListener\<close> calls name \<^verbatim>\<open>this.connect\<close> and
  \<^verbatim>\<open>this.onErrored\<close>, which are not the arrow functions that were registered, and
  remove nothing.
\<close>

definition closeStream :: "conn \<Rightarrow> outcome" where
  "closeStream c =
     (case stream c of
        None \<Rightarrow> Threw TypeError c
      | Some s \<Rightarrow>
          if destroy_throws s then Threw DestroyError c
          else Returned (emit DestroyStream (c\<lparr>stream := None\<rparr>)))"

text \<open>\<^verbatim>\<open>closeSockets\<close> of the second implementation (lines 639-650).\<close>

definition closeSockets :: "conn \<Rightarrow> outcome" where
  "closeSockets c =
     (case (case socket c of
              None \<Rightarrow> Returned c
            | Some k \<Rightarrow>
                if destroy_throws k then Threw DestroyError c
                else Returned (emit DestroySocket (c\<lparr>socket := None\<rparr>))) of
        Threw e c1 \<Rightarrow> Threw e c1
      | Returned c1 \<Rightarrow>
          (case stream c1 of
             None \<Rightarrow> Returned c1
           | Some s \<Rightarrow>
               if destroy_throws s then Threw DestroyError c1
               else Returned (emit DestroyStream (c1\<lparr>stream := None\<rparr>))))"

text \<open>
  \<^verbatim>\<open>stream.on('empty', ...)\<close>: one more handler on the stream object that
  \<^verbatim>\<open>this.stream\<close> refers to.
\<close>

definition on_empty :: "conn \<Rightarrow> conn" where
  "on_empty c =
     (case stream c of
        None \<Rightarrow> c
      | Some s \<Rightarrow> c\<lparr>stream := Some (s\<lparr>empty_listeners := Suc (empty_listeners s)\<rparr>)\<rparr>)"

definition set_timeout :: "timer \<Rightarrow> int \<Rightarrow> conn \<Rightarrow> conn" where
  "set_timeout t ms c = emit (SetTimeout t ms) c"

text \<open>
  The closure \<^verbatim>\<open>_close\<close> with the current value of its attempt counter (lines 334-359
  and 657-675). In the first implementation \<^verbatim>\<open>max\<close> is 6 and the delay is
  \<^verbatim>\<open>200 * attempt\<close>; in the second \<^verbatim>\<open>max\<close> is 3 and the delay is \<^verbatim>\<open>100 + attempts\<close>.
\<close>

fun close_attempt :: "impl \<Rightarrow> nat \<Rightarrow> conn \<Rightarrow> conn" where
  "close_attempt First attempt c =
     (if attempt \<ge> 6 \<or> length (deferredQueue c) \<le> 0 then
        (let c1 = c\<lparr>shutdown := True\<rparr>;
             r1 = (case socket c1 of
                     None \<Rightarrow> Returned c1
                   | Some k \<Rightarrow>
                       if destroy_throws k then Threw DestroyError c1
                       else Returned (emit DestroySocket (c1\<lparr>socket := None\<rparr>)));
             r2 = (case r1 of
                     Threw e c2 \<Rightarrow> Threw e c2
                   | Returned c2 \<Rightarrow>
                       (case stream c2 of
                          None \<Rightarrow> Returned c2
                        | Some s \<Rightarrow>
                            if flushOnClose (options c2) \<and> length (deferredQueue c2) > 0
                            then Returned (on_empty c2)
                            else closeStream c2))
         in case r2 of
              Returned c3 \<Rightarrow> c3
            | Threw e c3 \<Rightarrow>
                set_timeout (CloseRetry (attempt + 1)) (200 * int (attempt + 1)) c3)
      else set_timeout (CloseRetry (attempt + 1)) (200 * int (attempt + 1)) c)"
| "close_attempt Second attempts c =
     (let r = (case stream c of
                 None \<Rightarrow> Returned c
               | Some s \<Rightarrow>
                   if flushOnClose (options c) \<and> length (deferredQueue c) > 0
                   then Returned (on_empty c)
                   else closeSockets c)
      in case r of
           Returned c1 \<Rightarrow> c1\<lparr>shutdown := False\<rparr>
         | Threw e c1 \<Rightarrow>
             if attempts + 1 < 3
             then set_timeout (CloseRetry (attempts + 1)) (100 + int (attempts + 1)) c1
             else c1)"

text \<open>\<^verbatim>\<open>close\<close> (lines 325-361 and 652-677).\<close>

fun close :: "impl \<Rightarrow> conn \<Rightarrow> conn" where
  "close First c = close_attempt First 0 c"
| "close Second c = close_attempt Second 0 (c\<lparr>shutdown := True\<rparr>)"

text \<open>\<^verbatim>\<open>onErrored\<close> up to the point where it has set its timer (lines 293-315, 607-629).\<close>

definition onErrored :: "conn \<Rightarrow> error \<Rightarrow> conn" where
  "onErrored c err =
     (let c1 = emitSilentError (c\<lparr>erroring := True\<rparr>) err
      in set_timeout Reconnect (connectionDelay c1) c1)"

text \<open>
  \<^verbatim>\<open>connect\<close> (lines 224-255 and 537-569). \<open>new\<close> is what
  \<^verbatim>\<open>net.createConnection\<close> does this time: \<open>None\<close> when it throws (the
  \<^verbatim>\<open>catch\<close> then calls \<^verbatim>\<open>onErrored\<close>), otherwise the socket object it returns. With
  TLS the object becomes \<^verbatim>\<open>this.socket\<close> and \<^verbatim>\<open>this.stream\<close> is assigned later, by
  the callback of \<^verbatim>\<open>createConnection\<close>; without TLS it becomes \<^verbatim>\<open>this.stream\<close>.
\<close>

definition connect :: "impl \<Rightarrow> sock option \<Rightarrow> conn \<Rightarrow> conn" where
  "connect v new c =
     (if shutdown c \<or> erroring c then c
      else
        (let c1 = close v c in
         case new of
           None \<Rightarrow> onErrored c1 ConnectionError
         | Some s \<Rightarrow>
             if disableTls (options c1)
             then emit CreateConnection (c1\<lparr>stream := Some s\<rparr>)
             else emit CreateConnection (c1\<lparr>socket := Some s\<rparr>)))"

text \<open>
  The callback of \<^verbatim>\<open>net.createConnection\<close> in the TLS branch (lines 237-248,
  550-563): \<^verbatim>\<open>this.stream = tls.connect(...)\<close>, where \<open>s\<close> is the object that
  \<^verbatim>\<open>tls.connect\<close> returns.
\<close>

definition onSocketConnected :: "sock \<Rightarrow> conn \<Rightarrow> conn" where
  "onSocketConnected s c = c\<lparr>stream := Some s\<rparr>"

text \<open>
  The arrow function that \<^verbatim>\<open>onErrored\<close> hands to \<^verbatim>\<open>setTimeout\<close> (lines 298-314,
  612-628).
\<close>

definition reconnect :: "impl \<Rightarrow> sock option \<Rightarrow> conn \<Rightarrow> conn" where
  "reconnect v new c =
     (let c1 = (if connectionDelay c < maxDelayBetweenReconnection (options c)
                   \<and> currentRetries c \<ge> attemptsBeforeDecay (options c)
                then c\<lparr>connectionDelay := connectionDelay c * 2,
                       currentRetries := currentRetries c + 1\<rparr>
                else c);
          c2 = (if loggingEnabled c1 \<and> totalRetries c1 \<ge> maximumAttempts (options c1)
                then emitSilentError (c1\<lparr>loggingEnabled := False\<rparr>) MaximumRetriesExceeded
                else c1)
      in connect v new (c2\<lparr>erroring := False\<rparr>))"

text \<open>
  The constructor (lines 199-222 and 512-535). \<^verbatim>\<open>!this.options.host\<close> holds for the
  empty string and \<^verbatim>\<open>!this.options.port\<close> for 0. \<open>initial\<close> is the object after the
  assignments of the constructor, before its call of \<^verbatim>\<open>this.connect()\<close>; no error
  listener can have been registered yet.
\<close>

definition initial :: "options \<Rightarrow> conn" where
  "initial opts =
     \<lparr>options = opts,
      connectionDelay = connectionDelay_opt opts,
      currentRetries = 0,
      totalRetries = 0,
      loggingEnabled = True,
      shutdown = False,
      erroring = False,
      deferredQueue = [],
      stream = None,
      socket = None,
      errorListeners = 0,
      trace = []\<rparr>"

definition construct :: "impl \<Rightarrow> options \<Rightarrow> sock option \<Rightarrow> error + conn" where
  "construct v opts new =
     (if host opts = [] \<or> port opts = 0 then Inl MissingParameters
      else Inr (connect v new (initial opts)))"

text \<open>\<^verbatim>\<open>write\<close> (lines 257-268 and 571-582).\<close>

definition push :: "string \<Rightarrow> callback \<Rightarrow> conn \<Rightarrow> conn" where
  "push text cb c = c\<lparr>deferredQueue := deferredQueue c @ [\<lparr>buffer = text, callback = cb\<rparr>]\<rparr>"

fun "write" :: "impl \<Rightarrow> conn \<Rightarrow> string \<Rightarrow> callback \<Rightarrow> outcome" where
  "write First c text cb =
     (case stream c of
        None \<Rightarrow> Returned (push text cb c)
      | Some s \<Rightarrow>
          if writable s then
            (if write_throws s then Threw WriteError c
             else Returned (emit (Write text cb) c))
          else Returned (push text cb c))"
| "write Second c text cb =
     (case stream c of
        None \<Rightarrow> Returned (push text cb c)
      | Some s \<Rightarrow>
          if writable s then
            (if write_throws s then Returned (push text cb c)
             else Returned (emit (Write text cb) c))
          else Returned (push text cb c))"

text \<open>
  The loop of \<^verbatim>\<open>processBuffer\<close> (lines 274-278 and 588-592): take an entry, and
  while there is one write it and take the next. The first implementation takes with
  \<^verbatim>\<open>shift\<close> (the head of the array), the second with \<^verbatim>\<open>pop\<close> (its last element). An
  entry is an object and so always truthy: the loop ends when the array is empty.
  A write that throws leaves the loop with the entry already taken out.
\<close>

function drain :: "impl \<Rightarrow> sock \<Rightarrow> conn \<Rightarrow> outcome" where
  "drain v s c =
     (if deferredQueue c = [] then Returned c
      else
        (let msg = (case v of First \<Rightarrow> hd (deferredQueue c) | Second \<Rightarrow> last (deferredQueue c));
             c1 = c\<lparr>deferredQueue :=
                      (case v of First \<Rightarrow> tl (deferredQueue c)
                               | Second \<Rightarrow> butlast (deferredQueue c))\<rparr>
         in if write_throws s then Threw WriteError c1
            else drain v s (emit (Write (buffer msg) (callback msg)) c1)))"
  by pat_completeness auto
termination
  by (relation "measure (\<lambda>(v, s, c). length (deferredQueue c))")
     (auto simp: emit_def split: impl.splits)

declare drain.simps [simp del]

text \<open>
  \<^verbatim>\<open>this.stream.emit('empty')\<close>: the handlers registered on the object are called one
  after the other; an exception of one ends the emit. The handler is
  \<^verbatim>\<open>closeStream\<close> in the first implementation and \<^verbatim>\<open>closeSockets\<close> in the second.
\<close>

fun run_listeners :: "impl \<Rightarrow> nat \<Rightarrow> conn \<Rightarrow> outcome" where
  "run_listeners v 0 c = Returned c"
| "run_listeners v (Suc n) c =
     (case (case v of First \<Rightarrow> closeStream c | Second \<Rightarrow> closeSockets c) of
        Returned c1 \<Rightarrow> run_listeners v n c1
      | Threw e c1 \<Rightarrow> Threw e c1)"

text \<open>\<^verbatim>\<open>processBuffer\<close> (lines 270-280 and 584-594).\<close>

definition processBuffer :: "impl \<Rightarrow> conn \<Rightarrow> outcome" where
  "processBuffer v c =
     (if length (deferredQueue c) = 0 then Returned c
      else
        (case stream c of
           None \<Rightarrow> Returned c
         | Some s \<Rightarrow>
             if writable s then
               (case drain v s c of
                  Threw e c1 \<Rightarrow> Threw e c1
                | Returned c1 \<Rightarrow> run_listeners v (empty_listeners s) (emit EmitEmpty c1))
             else Returned c))"

text \<open>\<^verbatim>\<open>onConnected\<close> (lines 282-291 and 596-605).\<close>

definition onConnected :: "impl \<Rightarrow> conn \<Rightarrow> outcome" where
  "onConnected v c =
     (case processBuffer v
             (c\<lparr>loggingEnabled := True,
                currentRetries := 0,
                totalRetries := 0,
                connectionDelay := connectionDelay_opt (options c)\<rparr>) of
        Threw e c1 \<Rightarrow> Threw e c1
      | Returned c1 \<Rightarrow> Returned (emit EmitConnect c1))"

section \<open>PapertrailTransport\<close>

text \<open>
  The argument of \<^verbatim>\<open>producer.produce\<close>. The producer is the class \<^verbatim>\<open>Produce\<close> of
  the library \<^verbatim>\<open>glossy\<close>, which is not part of this repository: \<open>produce\<close> is a
  parameter of the functions below. The severity handed to it is a number, a level
  name, or a member of \<^verbatim>\<open>Object.prototype\<close> that the lookup in \<^verbatim>\<open>levels\<close> found
  (\<open>Inherited\<close>, with the name of the member). \<^verbatim>\<open>new Date()\<close> reads the clock: \<open>clock i\<close> is the time read in iteration
  \<open>i\<close> of the loop.
\<close>

datatype severity = Number int | Name string | Inherited string

record syslog =
  severity :: severity
  syslog_host :: string
  appName :: string
  date :: nat
  message :: string

definition CRLF :: string where
  "CRLF = [CHR 0x0D, CHR 0x0A]"

definition LF :: char where
  "LF = CHR 0x0A"

text \<open>\<^verbatim>\<open>message.split('\n')\<close>: the segments between line feeds, at least one.\<close>

fun split_lines :: "string \<Rightarrow> string list" where
  "split_lines [] = [[]]"
| "split_lines (ch # cs) =
     (if ch = LF then [] # split_lines cs
      else (case split_lines cs of
              [] \<Rightarrow> [[ch]]
            | l # ls \<Rightarrow> (ch # l) # ls))"

text \<open>
  \<^verbatim>\<open>level.replace(/\u001b\[\d+m/g, '')\<close> of the first implementation (line 168):
  every escape character followed by an opening bracket, one or more decimal digits
  and the letter m is removed, scanning from the left.
\<close>

definition is_digit :: "char \<Rightarrow> bool" where
  "is_digit ch = (ch \<in> set ''0123456789'')"

fun skip_digits :: "string \<Rightarrow> string" where
  "skip_digits [] = []"
| "skip_digits (ch # cs) = (if is_digit ch then skip_digits cs else ch # cs)"

fun match_escape :: "string \<Rightarrow> string option" where
  "match_escape (e # b # d # cs) =
     (if e = CHR 0x1B \<and> b = CHR ''['' \<and> is_digit d then
        (case skip_digits cs of
           [] \<Rightarrow> None
         | m # rest \<Rightarrow> if m = CHR ''m'' then Some rest else None)
      else None)"
| "match_escape cs = None"

function strip_escapes :: "string \<Rightarrow> string" where
  "strip_escapes [] = []"
| "strip_escapes (ch # cs) =
     (case match_escape (ch # cs) of
        Some rest \<Rightarrow> strip_escapes rest
      | None \<Rightarrow> ch # strip_escapes cs)"
  by pat_completeness auto
termination
proof (relation "measure length")
  show "wf (measure length)"
    by simp
next
  fix ch :: char and cs rest :: string
  assume m: "match_escape (ch # cs) = Some rest"
  have skip: "length (skip_digits ds) \<le> length ds" for ds
    by (induction ds) auto
  have "length rest < length (ch # cs)"
  proof (cases cs)
    case Nil
    with m show ?thesis by simp
  next
    case outer: (Cons b bs)
    show ?thesis
    proof (cases bs)
      case Nil
      with m outer show ?thesis by simp
    next
      case (Cons d ds)
      with m outer skip [of ds] show ?thesis
        by (auto split: if_splits list.splits)
    qed
  qed
  then show "(rest, ch # cs) \<in> measure length"
    by simp
next
  fix ch :: char and cs :: string
  show "(cs, ch # cs) \<in> measure length"
    by simp
qed

text \<open>
  The names of the properties of \<^verbatim>\<open>Object.prototype\<close>. \<^verbatim>\<open>levels\<close> is a plain object,
  so \<^verbatim>\<open>levels[name]\<close> for a name that is no key of its own finds the member of the
  prototype with that name, a function or an object, when there is one.
\<close>

definition object_prototype :: "string list" where
  "object_prototype =
     [''constructor'', ''__defineGetter__'', ''__defineSetter__'', ''hasOwnProperty'',
      ''__lookupGetter__'', ''__lookupSetter__'', ''isPrototypeOf'',
      ''propertyIsEnumerable'', ''toString'', ''valueOf'', ''__proto__'',
      ''toLocaleString'']"

text \<open>
  The severity of a frame (lines 168-171 and 481). In JavaScript \<^verbatim>\<open>a || b\<close> is
  \<^verbatim>\<open>b\<close> when \<^verbatim>\<open>a\<close> is \<^verbatim>\<open>undefined\<close> (the level is no key of \<^verbatim>\<open>levels\<close> and no
  member of the prototype) and also when \<^verbatim>\<open>a\<close> is the number 0; a member of the
  prototype is truthy and is passed on.
\<close>

fun severity_of :: "impl \<Rightarrow> options \<Rightarrow> string \<Rightarrow> severity" where
  "severity_of First opts level =
     (let cleanedLevel = strip_escapes level in
      case map_of (levels opts) cleanedLevel of
        None \<Rightarrow>
          if cleanedLevel \<in> set object_prototype then Inherited cleanedLevel
          else Name cleanedLevel
      | Some n \<Rightarrow> if n = 0 then Name cleanedLevel else Number n)"
| "severity_of Second opts level =
     (case map_of (levels opts) level of
        None \<Rightarrow> if level \<in> set object_prototype then Inherited level else Number 5
      | Some n \<Rightarrow> if n = 0 then Number 5 else Number n)"

text \<open>
  The loop of \<^verbatim>\<open>sendMessage\<close> (lines 157-177 and 470-490) over the lines that are
  left, with the index \<open>i\<close>, the current \<open>gap\<close> and the text \<open>msg\<close> built so far.
  \<^verbatim>\<open>i === lines.length - 1\<close> holds when no line is left after this one.
\<close>

fun frames ::
  "impl \<Rightarrow> (syslog \<Rightarrow> string) \<Rightarrow> (nat \<Rightarrow> nat) \<Rightarrow> options \<Rightarrow> string \<Rightarrow> string \<Rightarrow>
   string list \<Rightarrow> nat \<Rightarrow> string \<Rightarrow> string \<Rightarrow> string" where
  "frames v produce clock opts level text [] i gap msg = msg"
| "frames v produce clock opts level text (l # rest) i gap msg =
     (if length l = 0 \<and> rest = [] then msg
      else
        (let gap1 = (if i = 1 then ''    '' else gap);
             frame = produce
               \<lparr>severity = severity_of v opts level,
                syslog_host = hostname opts,
                appName = program opts,
                date = clock i,
                message = (case v of First \<Rightarrow> logFormat opts level (gap1 @ l)
                                   | Second \<Rightarrow> text)\<rparr>
         in frames v produce clock opts level text rest (i + 1) gap1 (msg @ frame @ CRLF)))"

text \<open>
  \<^verbatim>\<open>sendMessage\<close> (lines 143-180 and 456-493), with the transport's merged options
  \<open>opts\<close> and its connection \<open>c\<close>. The empty string is falsy, so it is not split.
\<close>

definition sendMessage ::
  "impl \<Rightarrow> (syslog \<Rightarrow> string) \<Rightarrow> (nat \<Rightarrow> nat) \<Rightarrow> options \<Rightarrow> conn \<Rightarrow> string \<Rightarrow> string \<Rightarrow>
   callback \<Rightarrow> outcome" where
  "sendMessage v produce clock opts c level text cb =
     write v c
       (frames v produce clock opts level text
          (if text = [] then [[]] else split_lines text) 0 [] [])
       cb"

text \<open>
  \<^verbatim>\<open>defaultOptions\<close> of the two constructors (lines 65-98 and 413-438), for the fields
  of the record; \<open>h\<close> is the value of \<^verbatim>\<open>os.hostname()\<close>. The second implementation has
  no \<^verbatim>\<open>logFormat\<close> and never reads one.
\<close>

fun defaultOptions :: "impl \<Rightarrow> string \<Rightarrow> options" where
  "defaultOptions First h =
     \<lparr>host = ''localhost'', port = 417, disableTls = False, hostname = h,
      program = ''default'',
      levels = [(''debug'', 0), (''info'', 1), (''notice'', 2), (''warning'', 3),
                (''warn'', 3), (''error'', 4), (''err'', 4), (''crit'', 5),
                (''alert'', 6), (''emerg'', 7)],
      logFormat = (\<lambda>level message. level @ '' '' @ message),
      flushOnClose = False, attemptsBeforeDecay = 5, maximumAttempts = 25,
      connectionDelay_opt = 1000, maxDelayBetweenReconnection = 60000\<rparr>"
| "defaultOptions Second h =
     \<lparr>host = ''localhost'', port = 417, disableTls = False, hostname = h,
      program = ''default'',
      levels = [(''debug'', 7), (''info'', 6), (''notice'', 5), (''warning'', 4),
                (''warn'', 4), (''error'', 3), (''err'', 3), (''crit'', 2),
                (''alert'', 1), (''emerg'', 0)],
      logFormat = (\<lambda>level message. message),
      flushOnClose = True, attemptsBeforeDecay = 5, maximumAttempts = 25,
      connectionDelay_opt = 1000, maxDelayBetweenReconnection = 60000\<rparr>"

section \<open>Runs of the connection\<close>

text \<open>
  The stream is writable for \<^verbatim>\<open>write\<close> and \<^verbatim>\<open>processBuffer\<close> when
  \<^verbatim>\<open>this.stream && this.stream.writable\<close> holds.
\<close>

definition stream_writable :: "conn \<Rightarrow> bool" where
  "stream_writable c = (case stream c of None \<Rightarrow> False | Some s \<Rightarrow> writable s)"

text \<open>The payloads handed to \<^verbatim>\<open>stream.write\<close> so far, in the order of the calls.\<close>

fun payload :: "effect \<Rightarrow> deferred list" where
  "payload (Write text cb) = [\<lparr>buffer = text, callback = cb\<rparr>]"
| "payload e = []"

definition written :: "conn \<Rightarrow> deferred list" where
  "written c = concat (map payload (trace c))"

text \<open>
  A socket object as Node hands it out: writable, with no listener for \<^verbatim>\<open>empty\<close>,
  and with \<^verbatim>\<open>write\<close> and \<^verbatim>\<open>destroy\<close> that do not throw.
\<close>

definition fresh :: sock where
  "fresh = \<lparr>writable = True, write_throws = False, destroy_throws = False,
            empty_listeners = 0\<rparr>"

text \<open>
  A failed connection attempt: the socket reports an error, \<^verbatim>\<open>onErrored\<close> runs, and
  later its timer fires. \<open>new\<close> is what \<^verbatim>\<open>net.createConnection\<close> does in the
  \<^verbatim>\<open>connect\<close> of that timer. \<open>failures\<close> is a sequence of consecutive failed
  attempts, one for each element of the list.
\<close>

definition failed_attempt :: "impl \<Rightarrow> sock option \<Rightarrow> conn \<Rightarrow> conn" where
  "failed_attempt v new c = reconnect v new (onErrored c ConnectionError)"

definition failures :: "impl \<Rightarrow> sock option list \<Rightarrow> conn \<Rightarrow> conn" where
  "failures v news c = foldl (\<lambda>c1 new. failed_attempt v new c1) c news"

text \<open>
  The options of the tests in \<^verbatim>\<open>src/test/transport.test.ts\<close> (for example lines
  600-605), with the default value in every field that the tests leave out. The second
  transport hands its connection these merged options (lines 440-441). The first
  transport builds its connection from the options as they were passed, before the
  merge (line 100), so with the first implementation these are the options of a
  \<^verbatim>\<open>PapertrailConnection\<close>, which is exported, constructed with every field given.
\<close>

definition test_options :: "impl \<Rightarrow> options" where
  "test_options v =
     (defaultOptions v ''localhost'')
       \<lparr>port := 23456, attemptsBeforeDecay := 0, connectionDelay_opt := 10000\<rparr>"

text \<open>
  The condition under which the timer of \<^verbatim>\<open>onErrored\<close> doubles the delay (lines
  299-302 and 613-616).
\<close>

definition grows :: "conn \<Rightarrow> bool" where
  "grows c =
     (connectionDelay c < maxDelayBetweenReconnection (options c)
      \<and> currentRetries c \<ge> attemptsBeforeDecay (options c))"

subsection \<open>The runs the properties below look at\<close>

text \<open>
  Second implementation: a connection constructed with the options of the tests.
\<close>

definition constructed :: conn where
  "constructed = connect Second (Some fresh) (initial (test_options Second))"

text \<open>
  On that connection, which uses TLS, \<^verbatim>\<open>write\<close> is called with \<open>a\<close> and then with
  \<open>b\<close> before there is a stream.
\<close>

definition a_then_b :: conn where
  "a_then_b =
     state_of (write Second (state_of (write Second constructed ''a'' 1)) ''b'' 2)"

text \<open>
  First implementation, with TLS and \<^verbatim>\<open>flushOnClose\<close>: the connection is constructed,
  \<open>x\<close> is written before there is a stream, the TCP socket connects and the TLS
  handshake starts, and \<^verbatim>\<open>close\<close> is called. In \<open>retries_elapsed\<close> the six timers
  that \<^verbatim>\<open>_close\<close> sets one after the other have fired, and the handshake has not
  finished.
\<close>

definition closed_with_backlog :: conn where
  "closed_with_backlog =
     close First
       (onSocketConnected fresh
          (state_of (write First
             (connect First (Some fresh)
                (initial ((test_options First)\<lparr>flushOnClose := True\<rparr>)))
             ''x'' 1)))"

definition retries_elapsed :: conn where
  "retries_elapsed =
     close_attempt First 6 (close_attempt First 5 (close_attempt First 4
       (close_attempt First 3 (close_attempt First 2
          (close_attempt First 1 closed_with_backlog)))))"

text \<open>Three consecutive failed attempts of that connection.\<close>

definition three_failures :: conn where
  "three_failures = failures Second [Some fresh, Some fresh, Some fresh] constructed"

text \<open>
  A connection constructed with \<^verbatim>\<open>maximumAttempts: 0\<close>, after one failed attempt.
\<close>

definition degraded :: "impl \<Rightarrow> conn" where
  "degraded v =
     failed_attempt v (Some fresh)
       (connect v (Some fresh) (initial ((test_options v)\<lparr>maximumAttempts := 0\<rparr>)))"

text \<open>
  The socket of that connection reports an error, and \<^verbatim>\<open>close\<close> is called while the
  timer of \<^verbatim>\<open>onErrored\<close> is pending.
\<close>

definition closed_while_erroring :: conn where
  "closed_while_erroring = close Second (onErrored constructed ConnectionError)"

text \<open>
  First implementation without TLS, where the socket that \<^verbatim>\<open>net.createConnection\<close>
  returned is writable and its \<^verbatim>\<open>write\<close> throws.
\<close>

definition throwing_stream :: conn where
  "throwing_stream =
     connect First (Some (fresh\<lparr>write_throws := True\<rparr>))
       (initial ((test_options First)\<lparr>disableTls := True\<rparr>))"

section \<open>The frames as the specification describes them\<close>

text \<open>
  The specification of \<^verbatim>\<open>send\<close>, in its words: the body is split on line breaks and
  an empty final segment is not emitted (\<open>spec_lines\<close>); every line with index at
  least 1 is prefixed with a gap of four spaces, each line is wrapped into one frame
  with the resolved severity, the host, the program and the time, and each frame is
  terminated by CRLF (\<open>spec_frame\<close>); the frames of one call are concatenated into
  one buffer (\<open>spec_frames\<close>). The severity and the \<^verbatim>\<open>logFormat\<close> around the line
  are those of the first implementation, the one these definitions are compared with.
\<close>

definition spec_lines :: "string \<Rightarrow> string list" where
  "spec_lines body =
     (let ls = split_lines body in if last ls = [] then butlast ls else ls)"

definition spec_frame ::
  "(syslog \<Rightarrow> string) \<Rightarrow> (nat \<Rightarrow> nat) \<Rightarrow> options \<Rightarrow> string \<Rightarrow> nat \<Rightarrow> string \<Rightarrow> string" where
  "spec_frame produce clock opts level i l =
     produce
       \<lparr>severity = severity_of First opts level,
        syslog_host = hostname opts,
        appName = program opts,
        date = clock i,
        message = logFormat opts level ((if i \<ge> 1 then ''    '' else []) @ l)\<rparr> @ CRLF"

definition spec_frames ::
  "(syslog \<Rightarrow> string) \<Rightarrow> (nat \<Rightarrow> nat) \<Rightarrow> options \<Rightarrow> string \<Rightarrow> string \<Rightarrow> string" where
  "spec_frames produce clock opts level body =
     concat (map (\<lambda>(i, l). spec_frame produce clock opts level i l)
               (enumerate 0 (spec_lines body)))"

section \<open>Properties\<close>

subsection \<open>The constructor\<close>

text \<open>
  With a host and a port the constructor returns the initial object after its
  \<^verbatim>\<open>connect\<close>; the runs above start there.
\<close>

lemma construct_succeeds:
  "host opts \<noteq> [] \<Longrightarrow> port opts \<noteq> 0 \<Longrightarrow>
   construct v opts new = Inr (connect v new (initial opts))"
  by (simp add: construct_def)

lemma construct_test_options:
  "construct v
     ((test_options v)\<lparr>flushOnClose := f, maximumAttempts := n, disableTls := t\<rparr>) new =
   Inr (connect v new
     (initial ((test_options v)\<lparr>flushOnClose := f, maximumAttempts := n, disableTls := t\<rparr>)))"
  by (cases v) (simp_all add: construct_def test_options_def)

subsection \<open>Fields that the methods leave alone\<close>

lemma emit_fields [simp]:
  "options (emit e c) = options c"
  "connectionDelay (emit e c) = connectionDelay c"
  "currentRetries (emit e c) = currentRetries c"
  "totalRetries (emit e c) = totalRetries c"
  "loggingEnabled (emit e c) = loggingEnabled c"
  "deferredQueue (emit e c) = deferredQueue c"
  "trace (emit e c) = trace c @ [e]"
  by (simp_all add: emit_def)

lemma close_attempt_fields [simp]:
  "options (close_attempt v n c) = options c"
  "connectionDelay (close_attempt v n c) = connectionDelay c"
  "currentRetries (close_attempt v n c) = currentRetries c"
  "totalRetries (close_attempt v n c) = totalRetries c"
  "loggingEnabled (close_attempt v n c) = loggingEnabled c"
  "deferredQueue (close_attempt v n c) = deferredQueue c"
  by (cases v; simp add: Let_def closeStream_def closeSockets_def on_empty_def set_timeout_def
        split: option.splits)+

lemma close_fields [simp]:
  "options (close v c) = options c"
  "connectionDelay (close v c) = connectionDelay c"
  "currentRetries (close v c) = currentRetries c"
  "totalRetries (close v c) = totalRetries c"
  "loggingEnabled (close v c) = loggingEnabled c"
  "deferredQueue (close v c) = deferredQueue c"
  by (cases v; simp del: close_attempt.simps)+

lemma onErrored_fields [simp]:
  "options (onErrored c e) = options c"
  "connectionDelay (onErrored c e) = connectionDelay c"
  "currentRetries (onErrored c e) = currentRetries c"
  "totalRetries (onErrored c e) = totalRetries c"
  "loggingEnabled (onErrored c e) = loggingEnabled c"
  "deferredQueue (onErrored c e) = deferredQueue c"
  by (simp_all add: onErrored_def emitSilentError_def set_timeout_def Let_def)

lemma connect_fields [simp]:
  "options (connect v new c) = options c"
  "connectionDelay (connect v new c) = connectionDelay c"
  "currentRetries (connect v new c) = currentRetries c"
  "totalRetries (connect v new c) = totalRetries c"
  "loggingEnabled (connect v new c) = loggingEnabled c"
  "deferredQueue (connect v new c) = deferredQueue c"
  by (simp_all add: connect_def Let_def del: close.simps split: option.splits)

lemma failed_attempt_fields:
  "options (failed_attempt v new c) = options c"
  "connectionDelay (failed_attempt v new c) =
     (if grows c then connectionDelay c * 2 else connectionDelay c)"
  "currentRetries (failed_attempt v new c) =
     (if grows c then currentRetries c + 1 else currentRetries c)"
  "totalRetries (failed_attempt v new c) = totalRetries c"
  by (auto simp: failed_attempt_def reconnect_def Let_def emitSilentError_def grows_def)

lemma failures_snoc: "failures v (news @ [new]) c = failed_attempt v new (failures v news c)"
  by (simp add: failures_def)

lemma failures_options [simp]: "options (failures v news c) = options c"
proof (induction news rule: rev_induct)
  case Nil
  show ?case by (simp add: failures_def)
next
  case (snoc new news)
  then show ?case by (simp add: failures_snoc failed_attempt_fields)
qed

lemma failures_totalRetries: "totalRetries (failures v news c) = totalRetries c"
proof (induction news rule: rev_induct)
  case Nil
  show ?case by (simp add: failures_def)
next
  case (snoc new news)
  then show ?case by (simp add: failures_snoc failed_attempt_fields)
qed

subsection \<open>The loop of processBuffer\<close>

lemma drain_first:
  "\<not> write_throws s \<Longrightarrow>
   drain First s c =
     Returned (c\<lparr>deferredQueue := [],
                trace := trace c @ map (\<lambda>m. Write (buffer m) (callback m)) (deferredQueue c)\<rparr>)"
proof (induction "deferredQueue c" arbitrary: c)
  case Nil
  then show ?case by (subst drain.simps) simp
next
  case (Cons m q)
  from Cons(2) have q: "deferredQueue c = m # q" by simp
  let ?c1 = "emit (Write (buffer m) (callback m)) (c\<lparr>deferredQueue := q\<rparr>)"
  have step: "drain First s c = drain First s ?c1"
    using q Cons(3) by (subst drain.simps) simp
  have "q = deferredQueue ?c1" by (simp add: emit_def)
  from Cons(1) [OF this Cons(3)] show ?case
    by (simp add: step q emit_def)
qed

lemma drain_second:
  "\<not> write_throws s \<Longrightarrow>
   drain Second s c =
     Returned (c\<lparr>deferredQueue := [],
                trace := trace c @ map (\<lambda>m. Write (buffer m) (callback m))
                                    (rev (deferredQueue c))\<rparr>)"
proof (induction "deferredQueue c" arbitrary: c rule: rev_induct)
  case Nil
  then show ?case by (subst drain.simps) simp
next
  case (snoc m q)
  from snoc(2) have q: "deferredQueue c = q @ [m]" by simp
  let ?c1 = "emit (Write (buffer m) (callback m)) (c\<lparr>deferredQueue := q\<rparr>)"
  have step: "drain Second s c = drain Second s ?c1"
    using q snoc(3) by (subst drain.simps) simp
  have "q = deferredQueue ?c1" by (simp add: emit_def)
  from snoc(1) [OF this snoc(3)] show ?case
    by (simp add: step q emit_def)
qed

lemma payload_writes:
  "concat (map (payload \<circ> (\<lambda>m. Write (buffer m) (callback m))) q) = q"
  by (induction q) auto

lemma written_run_listeners: "written (state_of (run_listeners v n c)) = written c"
  by (induction n arbitrary: c)
     (auto simp: closeStream_def closeSockets_def written_def emit_def
           split: impl.splits option.splits outcome.splits)

text \<open>
  The first implementation writes the queue in the order of the array, the second in
  the reverse order.
\<close>

lemma processBuffer_first_in_order:
  assumes "stream c = Some s" "writable s" "\<not> write_throws s"
  shows "written (state_of (processBuffer First c)) = written c @ deferredQueue c"
  using assms
  by (simp add: processBuffer_def drain_first written_run_listeners)
     (simp add: written_def emit_def payload_writes)

lemma processBuffer_second_reversed:
  assumes "stream c = Some s" "writable s" "\<not> write_throws s"
  shows "written (state_of (processBuffer Second c)) = written c @ rev (deferredQueue c)"
  using assms
  by (simp add: processBuffer_def drain_second written_run_listeners)
     (simp add: written_def emit_def payload_writes)

text \<open>
  The handlers of \<^verbatim>\<open>empty\<close> only destroy; with them the second implementation tears
  the sockets down after the last write of the flush.
\<close>

lemma run_listeners_trace:
  "\<exists>rest. trace (state_of (run_listeners v n c)) = trace c @ rest
          \<and> set rest \<subseteq> {DestroySocket, DestroyStream}"
proof (induction n arbitrary: c)
  case 0
  show ?case by simp
next
  case (Suc n)
  show ?case
  proof (cases "case v of First \<Rightarrow> closeStream c | Second \<Rightarrow> closeSockets c")
    case (Returned c1)
    then have "\<exists>r1. trace c1 = trace c @ r1 \<and> set r1 \<subseteq> {DestroySocket, DestroyStream}"
      by (auto simp: closeStream_def closeSockets_def emit_def
               split: impl.splits option.splits if_splits)
    then obtain r1 where r1: "trace c1 = trace c @ r1" "set r1 \<subseteq> {DestroySocket, DestroyStream}"
      by blast
    from Suc [of c1] obtain r2 where
      r2: "trace (state_of (run_listeners v n c1)) = trace c1 @ r2"
          "set r2 \<subseteq> {DestroySocket, DestroyStream}"
      by blast
    from Returned r1 r2 show ?thesis
      by (intro exI [of _ "r1 @ r2"]) simp
  next
    case (Threw e c1)
    then have "\<exists>r1. trace c1 = trace c @ r1 \<and> set r1 \<subseteq> {DestroySocket, DestroyStream}"
      by (auto simp: closeStream_def closeSockets_def emit_def
               split: impl.splits option.splits if_splits)
    with Threw show ?thesis
      by simp
  qed
qed

lemma second_flush_before_teardown:
  assumes "stream c = Some s" "writable s" "\<not> write_throws s" "deferredQueue c \<noteq> []"
  shows "\<exists>rest. trace (state_of (processBuffer Second c)) =
           trace c @ map (\<lambda>m. Write (buffer m) (callback m)) (rev (deferredQueue c))
             @ EmitEmpty # rest
         \<and> set rest \<subseteq> {DestroySocket, DestroyStream}"
proof -
  let ?c1 = "emit EmitEmpty
     (c\<lparr>deferredQueue := [],
        trace := trace c @ map (\<lambda>m. Write (buffer m) (callback m)) (rev (deferredQueue c))\<rparr>)"
  from run_listeners_trace [of Second "empty_listeners s" ?c1] obtain rest where
    "trace (state_of (run_listeners Second (empty_listeners s) ?c1)) = trace ?c1 @ rest"
    "set rest \<subseteq> {DestroySocket, DestroyStream}"
    by blast
  with assms show ?thesis
    by (simp add: processBuffer_def drain_second emit_def)
qed

text \<open>
  With \<^verbatim>\<open>flushOnClose\<close> and a queue that is not empty, the \<^verbatim>\<open>close\<close> of the second
  implementation destroys nothing and registers its teardown for \<^verbatim>\<open>empty\<close>.
\<close>

lemma second_close_defers:
  assumes "flushOnClose (options c)" "deferredQueue c \<noteq> []"
  shows "trace (close Second c) = trace c"
    and "socket (close Second c) = socket c"
    and "stream (close Second c) =
           map_option (\<lambda>s. s\<lparr>empty_listeners := Suc (empty_listeners s)\<rparr>) (stream c)"
  using assms by (simp_all add: on_empty_def split: option.splits)

text \<open>
  The \<^verbatim>\<open>close\<close> of the first implementation leaves \<^verbatim>\<open>_shutdown\<close> set when the queue
  is empty.
\<close>

lemma first_close_sets_shutdown: "deferredQueue c = [] \<Longrightarrow> shutdown (close First c)"
  by (simp add: Let_def closeStream_def on_empty_def set_timeout_def emit_def
           split: option.splits)

text \<open>
  The \<^verbatim>\<open>close\<close> of the second implementation leaves \<^verbatim>\<open>_shutdown\<close> false whenever no
  \<^verbatim>\<open>destroy\<close> throws.
\<close>

lemma second_close_clears_shutdown:
  assumes "\<And>k. socket c = Some k \<Longrightarrow> \<not> destroy_throws k"
    and "\<And>s. stream c = Some s \<Longrightarrow> \<not> destroy_throws s"
  shows "\<not> shutdown (close Second c)"
  using assms
  by (auto simp: closeSockets_def on_empty_def emit_def split: option.splits)

text \<open>\<^verbatim>\<open>write\<close> does the same whatever \<^verbatim>\<open>loggingEnabled\<close> is.\<close>

lemma write_ignores_loggingEnabled:
  "state_of (write v (c\<lparr>loggingEnabled := b\<rparr>) body cb) =
   (state_of (write v c body cb))\<lparr>loggingEnabled := b\<rparr>"
  by (cases v) (auto simp: push_def emit_def split: option.splits)

text \<open>The \<^verbatim>\<open>write\<close> of the second implementation catches what the stream throws.\<close>

lemma second_write_never_raises: "\<not> threw (write Second c body cb)"
  by (simp split: option.splits)

lemma second_write_falls_back:
  "stream c = Some s \<Longrightarrow> writable s \<Longrightarrow> write_throws s \<Longrightarrow>
   write Second c body cb = Returned (push body cb c)"
  by simp

subsection \<open>Backoff and degrade\<close>

text \<open>
  What holds of the delay across consecutive failed attempts that start with the retry
  counter at 0 and a delay that is not negative (the state after the constructor and
  after every successful connect): it never decreases, and it changes only at an
  attempt that at least \<^verbatim>\<open>attemptsBeforeDecay\<close> failed attempts precede and before which
  it is below the maximum.
\<close>

lemma failures_invariant:
  assumes "currentRetries c = 0" "0 \<le> connectionDelay c"
  shows "currentRetries (failures v news c) \<le> int (length news)
       \<and> 0 \<le> connectionDelay (failures v news c)"
proof (induction news rule: rev_induct)
  case Nil
  from assms show ?case by (simp add: failures_def)
next
  case (snoc new news)
  then show ?case
    by (auto simp: failures_snoc failed_attempt_fields grows_def)
qed

lemma delay_never_decreases:
  assumes "currentRetries c = 0" "0 \<le> connectionDelay c"
  shows "connectionDelay (failures v news c) \<le> connectionDelay (failures v (news @ [new]) c)"
  using failures_invariant [OF assms, of v news]
  by (auto simp: failures_snoc failed_attempt_fields grows_def)

lemma delay_changes_only_after_threshold:
  assumes "currentRetries c = 0" "0 \<le> connectionDelay c"
    and "connectionDelay (failures v (news @ [new]) c) \<noteq> connectionDelay (failures v news c)"
  shows "attemptsBeforeDecay (options c) \<le> int (length news)"
    and "connectionDelay (failures v news c) < maxDelayBetweenReconnection (options c)"
    and "connectionDelay (failures v (news @ [new]) c) = 2 * connectionDelay (failures v news c)"
  using failures_invariant [OF assms(1,2), of v news] assms(3)
  by (auto simp: failures_snoc failed_attempt_fields grows_def split: if_splits)

text \<open>
  The retry counter is incremented only in the branch that it guards (lines 301-304,
  615-618): with \<^verbatim>\<open>attemptsBeforeDecay\<close> above 0 it stays 0 and the delay never
  changes.
\<close>

lemma delay_never_grows:
  assumes "currentRetries c = 0" "0 < attemptsBeforeDecay (options c)"
  shows "currentRetries (failures v news c) = 0
       \<and> connectionDelay (failures v news c) = connectionDelay c"
proof (induction news rule: rev_induct)
  case Nil
  from assms show ?case by (simp add: failures_def)
next
  case (snoc new news)
  with assms(2) show ?case
    by (simp add: failures_snoc failed_attempt_fields grows_def)
qed

lemma failed_attempt_loggingEnabled:
  "loggingEnabled c \<Longrightarrow> totalRetries c < maximumAttempts (options c) \<Longrightarrow>
   loggingEnabled (failed_attempt v new c)"
  by (simp add: failed_attempt_def reconnect_def Let_def)

lemma failures_loggingEnabled:
  "loggingEnabled c \<Longrightarrow> totalRetries c < maximumAttempts (options c) \<Longrightarrow>
   loggingEnabled (failures v news c)"
proof (induction news rule: rev_induct)
  case Nil
  then show ?case by (simp add: failures_def)
next
  case (snoc new news)
  then show ?case
    by (simp add: failures_snoc failed_attempt_loggingEnabled failures_totalRetries)
qed

subsection \<open>The first sendMessage builds the frames of the specification\<close>

lemma split_lines_not_empty: "split_lines body \<noteq> []"
  by (induction body) (auto split: list.splits)

lemma frames_first_spec:
  assumes "i = 0 \<Longrightarrow> gap = []" "2 \<le> i \<Longrightarrow> gap = ''    ''"
  shows "frames First produce clock opts level body ls i gap msg =
         msg @ concat (map (\<lambda>(j, l). spec_frame produce clock opts level j l)
                        (enumerate i (if ls \<noteq> [] \<and> last ls = [] then butlast ls else ls)))"
  using assms
proof (induction ls arbitrary: i gap msg)
  case Nil
  show ?case by simp
next
  case (Cons l rest)
  let ?rest = "if rest \<noteq> [] \<and> last rest = [] then butlast rest else rest"
  show ?case
  proof (cases "length l = 0 \<and> rest = []")
    case True
    then show ?thesis by simp
  next
    case False
    let ?gap1 = "if i \<ge> 1 then ''    '' else []"
    have g: "(if i = 1 then ''    '' else gap) = ?gap1"
      using Cons.prems by (cases "i = 0"; cases "i = 1") auto
    have ih: "frames First produce clock opts level body rest (Suc i) ?gap1 m =
         m @ concat (map (\<lambda>(j, l). spec_frame produce clock opts level j l)
                        (enumerate (Suc i) ?rest))" for m
      by (rule Cons.IH) auto
    have ls: "(if l # rest \<noteq> [] \<and> last (l # rest) = [] then butlast (l # rest) else l # rest)
            = l # ?rest"
      using False by auto
    have "frames First produce clock opts level body (l # rest) i gap msg =
          frames First produce clock opts level body rest (Suc i) ?gap1
            (msg @ spec_frame produce clock opts level i l)"
      using False g by (auto simp: spec_frame_def Let_def simp del: severity_of.simps)
    also have "\<dots> = (msg @ spec_frame produce clock opts level i l) @
          concat (map (\<lambda>(j, l). spec_frame produce clock opts level j l)
                        (enumerate (Suc i) ?rest))"
      by (rule ih)
    finally show ?thesis
      unfolding ls by simp
  qed
qed

lemma sendMessage_first_spec:
  "sendMessage First produce clock opts c level body cb =
     write First c (spec_frames produce clock opts level body) cb"
proof -
  have lines: "(if body = [] then [[]] else split_lines body) = split_lines body"
    by simp
  have "frames First produce clock opts level body (split_lines body) 0 [] [] =
        spec_frames produce clock opts level body"
    using frames_first_spec [of 0 "[]" produce clock opts level body "split_lines body" "[]"]
    by (simp add: spec_frames_def spec_lines_def split_lines_not_empty Let_def)
  then show ?thesis
    unfolding sendMessage_def lines by simp
qed

subsection \<open>Levels that name a member of the prototype\<close>

text \<open>
  A level that is no key of \<^verbatim>\<open>levels\<close> but names a member of \<^verbatim>\<open>Object.prototype\<close>
  gets that member as its severity, in both implementations.
\<close>

lemma prototype_member_passed_on:
  "severity_of First (defaultOptions First h) ''toString'' = Inherited ''toString''"
  "severity_of Second (defaultOptions Second h) ''constructor'' = Inherited ''constructor''"
  "severity_of Second (defaultOptions Second h) ''verbose'' = Number 5"
  by code_simp+

subsection \<open>The claims\<close>

text \<open>
  C1. Payloads queued while the stream is not writable are flushed first in, first out
  by the next successful connect. The first implementation does so
  (\<open>processBuffer_first_in_order\<close>). The second takes the entries with \<^verbatim>\<open>pop\<close>:
  with \<open>a\<close> queued before \<open>b\<close>, the connect writes \<open>b\<close> and then \<open>a\<close>.
\<close>

theorem second_flushes_in_reverse:
  "deferredQueue a_then_b =
     [\<lparr>buffer = ''a'', callback = 1\<rparr>, \<lparr>buffer = ''b'', callback = 2\<rparr>] \<and>
   written (state_of (onConnected Second (onSocketConnected fresh a_then_b))) =
     [\<lparr>buffer = ''b'', callback = 2\<rparr>, \<lparr>buffer = ''a'', callback = 1\<rparr>]"
  by code_simp

text \<open>
  C2. With \<^verbatim>\<open>flushOnClose\<close> and a queue that is not empty when \<^verbatim>\<open>close\<close> is called,
  the teardown of the sockets waits for the \<^verbatim>\<open>empty\<close> signal, so every queued payload
  is written before the sockets are destroyed. The second implementation does so
  (\<open>second_close_defers\<close>, \<open>second_flush_before_teardown\<close>). In the first, once
  the timers of \<^verbatim>\<open>_close\<close> have run out, \<^verbatim>\<open>this.socket.destroy()\<close> is called before
  \<^verbatim>\<open>flushOnClose\<close> is looked at: the raw socket is destroyed while \<open>x\<close> is still
  queued and nothing has been written.
\<close>

theorem first_destroys_socket_before_flush:
  "flushOnClose (options closed_with_backlog) \<and>
   deferredQueue closed_with_backlog = [\<lparr>buffer = ''x'', callback = 1\<rparr>] \<and>
   trace retries_elapsed =
     [CreateConnection,
      SetTimeout (CloseRetry 1) 200, SetTimeout (CloseRetry 2) 400,
      SetTimeout (CloseRetry 3) 600, SetTimeout (CloseRetry 4) 800,
      SetTimeout (CloseRetry 5) 1000, SetTimeout (CloseRetry 6) 1200,
      DestroySocket] \<and>
   deferredQueue retries_elapsed = [\<lparr>buffer = ''x'', callback = 1\<rparr>] \<and>
   written retries_elapsed = []"
  by code_simp

text \<open>
  C3. Across consecutive failed attempts the backoff delay never decreases, never
  exceeds \<^verbatim>\<open>maxDelayBetweenReconnection\<close>, and grows only after
  \<^verbatim>\<open>attemptsBeforeDecay\<close> failures. The first and the last hold
  (\<open>delay_never_decreases\<close>, \<open>delay_changes_only_after_threshold\<close>). The timer of
  \<^verbatim>\<open>onErrored\<close> doubles every delay that is still below the maximum and does not clamp
  the result: after three failed attempts of a connection constructed with the options
  of the tests the delay is 80000, above the maximum of 60000.
\<close>

theorem backoff_exceeds_maximum:
  "connectionDelay (failures Second [Some fresh, Some fresh] constructed) = 40000 \<and>
   connectionDelay three_failures = 80000 \<and>
   maxDelayBetweenReconnection (options three_failures) = 60000 \<and>
   \<not> connectionDelay three_failures \<le> maxDelayBetweenReconnection (options three_failures)"
  by code_simp

text \<open>
  C4. A write while the stream is not writable and \<^verbatim>\<open>loggingEnabled\<close> is false is
  dropped and does not grow the queue. In both implementations \<^verbatim>\<open>write\<close> never reads
  \<^verbatim>\<open>loggingEnabled\<close>: after the connection has reported that buffering is disabled,
  a write with no stream still appends to the queue.
\<close>

theorem degraded_write_still_queued:
  "\<not> loggingEnabled (degraded First) \<and> \<not> stream_writable (degraded First) \<and>
   deferredQueue (degraded First) = [] \<and>
   deferredQueue (state_of (write First (degraded First) ''x'' 1)) =
     [\<lparr>buffer = ''x'', callback = 1\<rparr>] \<and>
   \<not> loggingEnabled (degraded Second) \<and> \<not> stream_writable (degraded Second) \<and>
   deferredQueue (degraded Second) = [] \<and>
   deferredQueue (state_of (write Second (degraded Second) ''x'' 1)) =
     [\<lparr>buffer = ''x'', callback = 1\<rparr>]"
  by code_simp

text \<open>
  C5. Every failed attempt increments \<^verbatim>\<open>totalRetries\<close>, and buffering is disabled at
  the attempt where the count reaches \<^verbatim>\<open>maximumAttempts\<close>. No statement of either
  implementation increments \<^verbatim>\<open>totalRetries\<close>: after any number of failed attempts of
  a constructed connection it is 0, and with the default \<^verbatim>\<open>maximumAttempts\<close> of 25
  \<^verbatim>\<open>loggingEnabled\<close> is still true after 30 failed attempts.
\<close>

theorem totalRetries_never_counted:
  "totalRetries (failures v news (connect v new (initial opts))) = 0 \<and>
   loggingEnabled
     (failures Second (replicate 30 (Some fresh))
        (connect Second (Some fresh) (initial (defaultOptions Second h))))"
proof
  show "totalRetries (failures v news (connect v new (initial opts))) = 0"
    by (simp add: failures_totalRetries initial_def)
next
  show "loggingEnabled
     (failures Second (replicate 30 (Some fresh))
        (connect Second (Some fresh) (initial (defaultOptions Second h))))"
    by (rule failures_loggingEnabled) (simp_all add: initial_def)
qed

text \<open>
  C6. \<^verbatim>\<open>close\<close> sets \<^verbatim>\<open>_shutdown\<close>, and afterwards the guard of \<^verbatim>\<open>connect\<close> makes the
  pending reconnect timer a no-op. The \<^verbatim>\<open>close\<close> of the second implementation sets
  \<^verbatim>\<open>_shutdown\<close> and resets it before it returns: closed while the timer of
  \<^verbatim>\<open>onErrored\<close> is pending, the connection has \<^verbatim>\<open>_shutdown\<close> false, and the timer
  opens a new connection.
\<close>

theorem second_reconnects_after_close:
  "\<not> shutdown closed_while_erroring \<and>
   trace closed_while_erroring =
     [CreateConnection, ConsoleError ConnectionError, SetTimeout Reconnect 10000] \<and>
   trace (reconnect Second (Some fresh) closed_while_erroring) =
     trace closed_while_erroring @ [CreateConnection]"
  by code_simp

text \<open>
  C7. \<^verbatim>\<open>write\<close> never raises: a \<^verbatim>\<open>stream.write\<close> that throws is treated like a stream
  that is not writable, and the payload is queued. The second implementation does so
  (\<open>second_write_never_raises\<close>, \<open>second_write_falls_back\<close>). The first has no
  \<^verbatim>\<open>try\<close> around \<^verbatim>\<open>stream.write\<close>: the exception reaches the caller and the payload
  is not queued.
\<close>

theorem first_write_raises:
  "stream_writable throwing_stream \<and>
   write First throwing_stream ''x'' 1 = Threw WriteError throwing_stream"
  by (simp add: throwing_stream_def stream_writable_def connect_def initial_def
        test_options_def fresh_def emit_def on_empty_def Let_def)

text \<open>
  C8. Every line of the body becomes one frame that holds this line only, lines after
  the first are prefixed with four spaces, and the frames go to \<^verbatim>\<open>write\<close> in one
  call. The first implementation does so (\<open>sendMessage_first_spec\<close>). The second
  hands the whole body to the producer for every line and never uses the gap: for the
  body of the two lines \<open>a\<close> and \<open>b\<close> it writes two frames that both hold
  \<open>a\<close>, the line feed and \<open>b\<close>.
\<close>

theorem second_frames_whole_body:
  "sendMessage Second produce clock opts c level [CHR ''a'', LF, CHR ''b''] cb =
     write Second c
       (produce \<lparr>severity = severity_of Second opts level, syslog_host = hostname opts,
                 appName = program opts, date = clock 0,
                 message = [CHR ''a'', LF, CHR ''b'']\<rparr> @ CRLF @
        produce \<lparr>severity = severity_of Second opts level, syslog_host = hostname opts,
                 appName = program opts, date = clock 1,
                 message = [CHR ''a'', LF, CHR ''b'']\<rparr> @ CRLF)
       cb"
  by (simp add: sendMessage_def LF_def Let_def)

text \<open>
  C9. A level that is a key of \<^verbatim>\<open>levels\<close> resolves to the mapped number, also when
  that number is 0. With the default levels, the second implementation resolves
  \<open>emerg\<close>, mapped to 0, to the fallback 5, and the first resolves \<open>debug\<close>,
  mapped to 0, to the level name.
\<close>

theorem zero_severity_replaced:
  "map_of (levels (defaultOptions Second h)) ''emerg'' = Some 0 \<and>
   severity_of Second (defaultOptions Second h) ''emerg'' = Number 5 \<and>
   map_of (levels (defaultOptions First h)) ''debug'' = Some 0 \<and>
   severity_of First (defaultOptions First h) ''debug'' = Name ''debug''"
  by code_simp

text \<open>
  C10. Whenever the stream is absent or not writable, in every state of the
  connection, \<^verbatim>\<open>write\<close> returns and has appended the payload and its callback to the
  end of the queue; nothing else changes.
\<close>

theorem write_queues_when_not_writable:
  "\<not> stream_writable c \<Longrightarrow>
   write v c body cb =
     Returned (c\<lparr>deferredQueue := deferredQueue c @ [\<lparr>buffer = body, callback = cb\<rparr>]\<rparr>)"
  by (cases v) (auto simp: stream_writable_def push_def split: option.splits)

text \<open>
  C10 on the connection of the first implementation after its degrade: there is no
  stream, \<^verbatim>\<open>_shutdown\<close> is set and \<^verbatim>\<open>loggingEnabled\<close> is false.
\<close>

theorem write_queues_when_not_writable_witness:
  "\<not> stream_writable (degraded First) \<and> \<not> loggingEnabled (degraded First) \<and>
   shutdown (degraded First) \<and>
   write First (degraded First) ''x'' 7 =
     Returned ((degraded First)
       \<lparr>deferredQueue := deferredQueue (degraded First) @ [\<lparr>buffer = ''x'', callback = 7\<rparr>]\<rparr>)"
proof -
  have h: "\<not> stream_writable (degraded First)"
    by code_simp
  have "\<not> loggingEnabled (degraded First) \<and> shutdown (degraded First)"
    by code_simp
  with h write_queues_when_not_writable [OF h, of First "''x''" 7] show ?thesis
    by simp
qed

end
